theory Spec2Isabelle
  imports Complex_Main "HOL-Library.Word"
begin

unbundle bit_operations_syntax

section \<open>Numbers\<close>

text \<open>
  Every TypeScript \<^verbatim>\<open>number\<close> of the program is a value of \<open>jsnum\<close>: a finite
  number, negative zero, one of the two infinities, or NaN. \<open>Fin 0\<close> is \<^verbatim>\<open>+0\<close> and
  \<open>NZero\<close> is \<^verbatim>\<open>-0\<close>. The operations below are the exact ones, with the IEEE rules
  JavaScript uses for the special values and for the sign of a zero: a non-zero number
  divided by a zero is an infinity whose sign is the product of the two signs,
  \<^verbatim>\<open>0/0\<close>, \<^verbatim>\<open>Infinity - Infinity\<close> and \<^verbatim>\<open>0 * Infinity\<close> are NaN, NaN is
  absorbing, every comparison with NaN is false, a sum that is exactly zero is \<^verbatim>\<open>+0\<close>
  unless both terms are \<^verbatim>\<open>-0\<close>, and a product or quotient that is zero has the
  product of the signs. The rounding of a result to a double is the separate step
  \<open>rounded\<close> of the next section.
\<close>

datatype jsnum = Fin real | NZero | PInf | NInf | NaN

instantiation jsnum :: "{plus, minus, uminus, times, inverse, ord}"
begin

fun plus_jsnum :: "jsnum \<Rightarrow> jsnum \<Rightarrow> jsnum" where
  "plus_jsnum NaN b = NaN"
| "plus_jsnum a NaN = NaN"
| "plus_jsnum (Fin a) (Fin b) = Fin (a + b)"
| "plus_jsnum (Fin a) NZero = Fin a"
| "plus_jsnum NZero (Fin b) = Fin b"
| "plus_jsnum NZero NZero = NZero"
| "plus_jsnum PInf NInf = NaN"
| "plus_jsnum NInf PInf = NaN"
| "plus_jsnum PInf b = PInf"
| "plus_jsnum a PInf = PInf"
| "plus_jsnum NInf b = NInf"
| "plus_jsnum a NInf = NInf"

fun uminus_jsnum :: "jsnum \<Rightarrow> jsnum" where
  "uminus_jsnum (Fin a) = (if a = 0 then NZero else Fin (- a))"
| "uminus_jsnum NZero = Fin 0"
| "uminus_jsnum PInf = NInf"
| "uminus_jsnum NInf = PInf"
| "uminus_jsnum NaN = NaN"

definition minus_jsnum :: "jsnum \<Rightarrow> jsnum \<Rightarrow> jsnum" where
  "minus_jsnum a b = a + (- b)"

fun times_jsnum :: "jsnum \<Rightarrow> jsnum \<Rightarrow> jsnum" where
  "times_jsnum NaN b = NaN"
| "times_jsnum a NaN = NaN"
| "times_jsnum (Fin a) (Fin b) =
     (if a * b = 0 \<and> (a < 0) \<noteq> (b < 0) then NZero else Fin (a * b))"
| "times_jsnum (Fin a) NZero = (if a < 0 then Fin 0 else NZero)"
| "times_jsnum NZero (Fin b) = (if b < 0 then Fin 0 else NZero)"
| "times_jsnum NZero NZero = Fin 0"
| "times_jsnum (Fin a) PInf = (if a = 0 then NaN else if 0 < a then PInf else NInf)"
| "times_jsnum (Fin a) NInf = (if a = 0 then NaN else if 0 < a then NInf else PInf)"
| "times_jsnum PInf (Fin b) = (if b = 0 then NaN else if 0 < b then PInf else NInf)"
| "times_jsnum NInf (Fin b) = (if b = 0 then NaN else if 0 < b then NInf else PInf)"
| "times_jsnum NZero b = NaN"
| "times_jsnum a NZero = NaN"
| "times_jsnum PInf PInf = PInf"
| "times_jsnum PInf NInf = NInf"
| "times_jsnum NInf PInf = NInf"
| "times_jsnum NInf NInf = PInf"

fun divide_jsnum :: "jsnum \<Rightarrow> jsnum \<Rightarrow> jsnum" where
  "divide_jsnum NaN b = NaN"
| "divide_jsnum a NaN = NaN"
| "divide_jsnum (Fin a) (Fin b) =
     (if b = 0 then (if a = 0 then NaN else if 0 < a then PInf else NInf)
      else if a = 0 \<and> b < 0 then NZero
      else Fin (a / b))"
| "divide_jsnum (Fin a) NZero = (if a = 0 then NaN else if 0 < a then NInf else PInf)"
| "divide_jsnum NZero (Fin b) = (if b = 0 then NaN else if 0 < b then NZero else Fin 0)"
| "divide_jsnum NZero NZero = NaN"
| "divide_jsnum (Fin a) PInf = (if a < 0 then NZero else Fin 0)"
| "divide_jsnum (Fin a) NInf = (if a < 0 then Fin 0 else NZero)"
| "divide_jsnum NZero PInf = NZero"
| "divide_jsnum NZero NInf = Fin 0"
| "divide_jsnum PInf (Fin b) = (if b < 0 then NInf else PInf)"
| "divide_jsnum NInf (Fin b) = (if b < 0 then PInf else NInf)"
| "divide_jsnum PInf NZero = NInf"
| "divide_jsnum NInf NZero = PInf"
| "divide_jsnum a b = NaN"

definition inverse_jsnum :: "jsnum \<Rightarrow> jsnum" where
  "inverse_jsnum a = divide (Fin 1) a"

fun less_jsnum :: "jsnum \<Rightarrow> jsnum \<Rightarrow> bool" where
  "less_jsnum NaN b = False"
| "less_jsnum a NaN = False"
| "less_jsnum (Fin a) (Fin b) = (a < b)"
| "less_jsnum (Fin a) NZero = (a < 0)"
| "less_jsnum NZero (Fin b) = (0 < b)"
| "less_jsnum NZero NZero = False"
| "less_jsnum a NInf = False"
| "less_jsnum PInf b = False"
| "less_jsnum a b = True"

fun less_eq_jsnum :: "jsnum \<Rightarrow> jsnum \<Rightarrow> bool" where
  "less_eq_jsnum NaN b = False"
| "less_eq_jsnum a NaN = False"
| "less_eq_jsnum (Fin a) (Fin b) = (a \<le> b)"
| "less_eq_jsnum (Fin a) NZero = (a \<le> 0)"
| "less_eq_jsnum NZero (Fin b) = (0 \<le> b)"
| "less_eq_jsnum NZero NZero = True"
| "less_eq_jsnum PInf PInf = True"
| "less_eq_jsnum NInf NInf = True"
| "less_eq_jsnum a NInf = False"
| "less_eq_jsnum PInf b = False"
| "less_eq_jsnum a b = True"

instance ..

end

text \<open>
  The operators \<^verbatim>\<open>===\<close> and \<^verbatim>\<open>!==\<close> on numbers: NaN is equal to nothing, and
  the two zeros are equal.
\<close>

fun js_eq :: "jsnum \<Rightarrow> jsnum \<Rightarrow> bool" where
  "js_eq NaN b = False"
| "js_eq a NaN = False"
| "js_eq (Fin a) NZero = (a = 0)"
| "js_eq NZero (Fin b) = (b = 0)"
| "js_eq a b = (a = b)"

text \<open>An integer-valued number.\<close>

definition num :: "int \<Rightarrow> jsnum" where
  "num k = Fin (of_int k)"

text \<open>
  \<^verbatim>\<open>Math.floor\<close>, and the exact sine, cosine and tangent. They keep a negative
  zero, but for the cosine, which is 1 there.
\<close>

fun jfloor :: "jsnum \<Rightarrow> jsnum" where
  "jfloor (Fin a) = Fin (of_int \<lfloor>a\<rfloor>)"
| "jfloor a = a"

fun jsin :: "jsnum \<Rightarrow> jsnum" where
  "jsin (Fin a) = Fin (sin a)"
| "jsin NZero = NZero"
| "jsin a = NaN"

fun jcos :: "jsnum \<Rightarrow> jsnum" where
  "jcos (Fin a) = Fin (cos a)"
| "jcos NZero = Fin 1"
| "jcos a = NaN"


text \<open>
  ToInt32, the conversion every bitwise operator applies to its operands: NaN, the
  infinities and the zeros become 0, a finite number is truncated towards zero and
  wrapped into the signed 32-bit range.
\<close>

definition trunc :: "real \<Rightarrow> int" where
  "trunc a = (if a < 0 then \<lceil>a\<rceil> else \<lfloor>a\<rfloor>)"

fun to_int32 :: "jsnum \<Rightarrow> int" where
  "to_int32 (Fin a) = sint (word_of_int (trunc a) :: 32 word)"
| "to_int32 a = 0"

text \<open>The operators \<^verbatim>\<open>a & b\<close> and \<^verbatim>\<open>a >> n\<close>; their result is a 32-bit integer.\<close>

definition bitand :: "jsnum \<Rightarrow> jsnum \<Rightarrow> int" where
  "bitand a b = to_int32 a AND to_int32 b"

definition shr :: "jsnum \<Rightarrow> nat \<Rightarrow> int" where
  "shr a n = drop_bit (n mod 32) (to_int32 a)"

section \<open>Machine arithmetic\<close>

text \<open>
  An arithmetic operator of JavaScript gives the exact result rounded to a double. A
  result that is a zero, an infinity or NaN is not changed by the rounding; a finite
  result other than zero becomes the double nearest to it, which may be a zero or an
  infinity. The rounding function \<open>rnd\<close> is not fixed here, and neither are the values
  of \<^verbatim>\<open>Math.cos\<close>, \<^verbatim>\<open>Math.sin\<close> and \<^verbatim>\<open>Math.tan\<close>, which the language
  leaves to the implementation: they are the fields of a \<open>machine\<close>, a parameter of
  \<open>column\<close>, \<open>cast\<close> and \<open>render\<close>. What holds for every machine holds for the
  doubles of JavaScript. \<open>exact\<close> is the machine that does not round; the examples are
  evaluated on it. The end point of \<open>line\<close> is computed with the exact operations.
\<close>

record machine =
  rnd :: "real \<Rightarrow> jsnum"
  cos_of :: "jsnum \<Rightarrow> jsnum"
  sin_of :: "jsnum \<Rightarrow> jsnum"
  tan_of :: "jsnum \<Rightarrow> jsnum"

definition rounded :: "machine \<Rightarrow> jsnum \<Rightarrow> jsnum" where
  "rounded m v = (case v of Fin a \<Rightarrow> (if a = 0 then Fin 0 else rnd m a) | _ \<Rightarrow> v)"

definition fadd :: "machine \<Rightarrow> jsnum \<Rightarrow> jsnum \<Rightarrow> jsnum" where
  "fadd m a b = rounded m (a + b)"

definition fsub :: "machine \<Rightarrow> jsnum \<Rightarrow> jsnum \<Rightarrow> jsnum" where
  "fsub m a b = rounded m (a - b)"

definition fmul :: "machine \<Rightarrow> jsnum \<Rightarrow> jsnum \<Rightarrow> jsnum" where
  "fmul m a b = rounded m (a * b)"

definition fdiv :: "machine \<Rightarrow> jsnum \<Rightarrow> jsnum \<Rightarrow> jsnum" where
  "fdiv m a b = rounded m (a / b)"



section \<open>Colors\<close>

text \<open>
  \<^verbatim>\<open>type Color = [number, number, number, number]\<close>. Every color of the program
  comes out of \<open>colorRGBA\<close>, whose channels are results of \<^verbatim>\<open>&\<close>, so the
  channels are integers here. An argument with a default value is an \<open>option\<close>:
  \<open>None\<close> is the argument left out.
\<close>

type_synonym color = "int \<times> int \<times> int \<times> int"

definition colorRGBA :: "jsnum \<Rightarrow> jsnum \<Rightarrow> jsnum \<Rightarrow> jsnum option \<Rightarrow> color" where
  "colorRGBA r g b a_opt =
     (let a = (case a_opt of None \<Rightarrow> num 255 | Some a \<Rightarrow> a)
      in (bitand r (num 0xff), bitand g (num 0xff), bitand b (num 0xff), bitand a (num 0xff)))"

definition ColorBlack :: color where
  "ColorBlack = colorRGBA (num 0) (num 0) (num 0) None"

definition ColorDefault :: color where
  "ColorDefault = ColorBlack"

text \<open>
  The regular expression \<^verbatim>\<open>/^#([0-9a-f]{6})$/i\<close> of \<open>colorHex\<close>, matched the way
  a matcher runs it: the literal \<^verbatim>\<open>#\<close>, then the class \<^verbatim>\<open>[0-9a-f]\<close> (either
  case, under the flag \<^verbatim>\<open>i\<close>) exactly six times, then the end of the input. The
  result is the captured group. A character outside ASCII is neither \<^verbatim>\<open>#\<close> nor in
  the class, so the encoding of the string does not matter.
\<close>

definition hex_digit :: "char \<Rightarrow> nat option" where
  "hex_digit c =
     (let n = of_char c :: nat in
      if 48 \<le> n \<and> n \<le> 57 then Some (n - 48)
      else if 97 \<le> n \<and> n \<le> 102 then Some (n - 87)
      else if 65 \<le> n \<and> n \<le> 70 then Some (n - 55)
      else None)"

fun match_class :: "nat \<Rightarrow> string \<Rightarrow> (string \<times> string) option" where
  "match_class 0 s = Some ([], s)"
| "match_class (Suc n) [] = None"
| "match_class (Suc n) (c # s) =
     (if hex_digit c = None then None
      else case match_class n s of None \<Rightarrow> None | Some (g, rest) \<Rightarrow> Some (c # g, rest))"

definition match_hex :: "string \<Rightarrow> string option" where
  "match_hex hex =
     (case hex of
        [] \<Rightarrow> None
      | c # s \<Rightarrow>
          (if c \<noteq> CHR ''#'' then None
           else (case match_class 6 s of
                   None \<Rightarrow> None
                 | Some (g, rest) \<Rightarrow> (if rest = [] then Some g else None))))"

text \<open>
  \<^verbatim>\<open>parseInt(s, 16)\<close> on the captured group: the digits are read from the left, and
  reading stops at the first character that is not a hexadecimal digit (the group has
  none).
\<close>

fun parseInt16 :: "int \<Rightarrow> string \<Rightarrow> int" where
  "parseInt16 acc [] = acc"
| "parseInt16 acc (c # s) =
     (case hex_digit c of
        None \<Rightarrow> acc
      | Some d \<Rightarrow> parseInt16 (16 * acc + int d) s)"

datatype error = InvalidHexValue

definition colorHex :: "string \<Rightarrow> jsnum option \<Rightarrow> error + color" where
  "colorHex hex a =
     (case match_hex hex of
        None \<Rightarrow> Inl InvalidHexValue
      | Some g \<Rightarrow>
          (let rgb = num (parseInt16 0 g)
           in Inr (colorRGBA
                (num (shr (num (bitand rgb (num 0xff0000))) 16))
                (num (shr (num (bitand rgb (num 0x00ff00))) 8))
                (num (bitand rgb (num 0x0000ff)))
                a)))"

section \<open>Framebuffer and pixels\<close>

text \<open>
  \<^verbatim>\<open>ImageData\<close>: the read-only \<^verbatim>\<open>width\<close> and \<^verbatim>\<open>height\<close> and the bytes
  \<^verbatim>\<open>data\<close>, a \<^verbatim>\<open>Uint8ClampedArray\<close>. A write into such an array at an index
  outside it is ignored, and the value written is clamped to \<open>[0,255]\<close>. The offset
  arithmetic of \<open>pixel\<close> is that of unbounded integers.
\<close>

record fbuf =
  width :: nat
  height :: nat
  data :: "8 word list"

type_synonym point = "jsnum \<times> jsnum"

definition store :: "8 word list \<Rightarrow> int \<Rightarrow> int \<Rightarrow> 8 word list" where
  "store d i v =
     (if 0 \<le> i \<and> nat i < length d then d[nat i := word_of_int (max 0 (min 255 v))] else d)"

definition pixel :: "fbuf \<Rightarrow> point \<Rightarrow> color option \<Rightarrow> fbuf" where
  "pixel fb p color_opt =
     (let color = (case color_opt of None \<Rightarrow> ColorDefault | Some c \<Rightarrow> c);
          offset = 4 * (to_int32 (fst p) + int (width fb) * to_int32 (snd p));
          d0 = store (data fb) (offset + 0) (fst color);
          d1 = store d0 (offset + 1) (fst (snd color));
          d2 = store d1 (offset + 2) (fst (snd (snd color)));
          d3 = store d2 (offset + 3) (snd (snd (snd color)))
      in fb\<lparr>data := d3\<rparr>)"

text \<open>
  No drawing routine reads the framebuffer, and \<open>pixel\<close> is the only one that writes
  it. So each routine is modelled by the sequence of \<open>pixel\<close> calls it makes, in
  order, and its effect on the framebuffer is these calls applied one after the other.
\<close>

definition plot :: "fbuf \<Rightarrow> point list \<Rightarrow> color \<Rightarrow> fbuf" where
  "plot fb ps color = foldl (\<lambda>f p. pixel f p (Some color)) fb ps"

section \<open>Columns\<close>

text \<open>
  The loop \<^verbatim>\<open>for (let i = 0; i < height; i++) pixel(fbuf, [x, y++], color)\<close> of
  \<open>column\<close>, for a finite \<open>height\<close>.
\<close>

function column_loop :: "jsnum \<Rightarrow> real \<Rightarrow> int \<Rightarrow> nat \<Rightarrow> point list" where
  "column_loop x hgt y i =
     (if real i < hgt then (x, num y) # column_loop x hgt (y + 1) (Suc i) else [])"
  by pat_completeness auto
termination
proof (relation "measure (\<lambda>(x, hgt, y, i). nat \<lceil>hgt\<rceil> - i)")
  show "wf (measure (\<lambda>(x, hgt, y, i). nat \<lceil>hgt\<rceil> - i))" by simp
next
  fix x :: jsnum and hgt :: real and y :: int and i :: nat
  assume "real i < hgt"
  then have "i < nat \<lceil>hgt\<rceil>" by linarith
  then show "((x, hgt, y + 1, Suc i), (x, hgt, y, i))
             \<in> measure (\<lambda>(x, hgt, y, i). nat \<lceil>hgt\<rceil> - i)" by simp
qed

declare column_loop.simps [simp del]

text \<open>
  The pixel calls of \<open>column\<close> in a framebuffer of height \<open>fbh\<close>. After the clamp
  the height is finite, a negative zero, \<^verbatim>\<open>-Infinity\<close> or NaN; for the last three
  \<^verbatim>\<open>i < height\<close> is false at once.
\<close>

definition column_points :: "machine \<Rightarrow> nat \<Rightarrow> jsnum \<Rightarrow> jsnum \<Rightarrow> point list" where
  "column_points m fbh x height0 =
     (let height1 = (if Fin (real fbh) < height0 then Fin (real fbh) else height0);
          y = shr (fsub m (Fin (real fbh)) height1) 1
      in case height1 of Fin hgt \<Rightarrow> column_loop x hgt y 0 | _ \<Rightarrow> [])"

definition column :: "machine \<Rightarrow> fbuf \<Rightarrow> jsnum \<Rightarrow> jsnum \<Rightarrow> color option \<Rightarrow> fbuf" where
  "column m fb x height0 color_opt =
     (let color = (case color_opt of None \<Rightarrow> ColorDefault | Some c \<Rightarrow> c)
      in plot fb (column_points m (height fb) x height0) color)"

section \<open>Lines\<close>

text \<open>
  The loop \<^verbatim>\<open>while (du--)\<close> of \<open>bresenham\<close>: \<open>du\<close> is not negative in any of
  the four cases, so it counts the iterations left. \<open>xmajor\<close> is the test
  \<^verbatim>\<open>dx > dy\<close>, which does not change in the loop.
\<close>

fun bresenham_loop ::
  "nat \<Rightarrow> int \<Rightarrow> int \<Rightarrow> int \<Rightarrow> int \<Rightarrow> int \<Rightarrow> int \<Rightarrow> int \<Rightarrow> bool \<Rightarrow> (int \<times> int) list" where
  "bresenham_loop 0 e u v su sv dv2mdu2 dv2 xmajor = []"
| "bresenham_loop (Suc du) e u v su sv dv2mdu2 dv2 xmajor =
     (let v1 = (if 0 \<le> e then v + sv else v);
          e1 = (if 0 \<le> e then e + dv2mdu2 else e + dv2);
          u1 = u + su
      in (if xmajor then (u1, v1) else (v1, u1))
         # bresenham_loop du e1 u1 v1 su sv dv2mdu2 dv2 xmajor)"

text \<open>The pixel calls of \<open>bresenham\<close>; \<^verbatim>\<open>x | 0\<close> is ToInt32.\<close>

definition bresenham_points :: "point \<Rightarrow> point \<Rightarrow> (int \<times> int) list" where
  "bresenham_points a0 b0 =
     (let a1 = (to_int32 (fst a0), to_int32 (snd a0));
          b1 = (to_int32 (fst b0), to_int32 (snd b0));
          a = (if snd a1 > snd b1 then b1 else a1);
          b = (if snd a1 > snd b1 then a1 else b1);
          dx = fst b - fst a;
          dy = snd b - snd a;
          (u, v, du, dv, su, sv, dx) =
            (if dx > 0 then
               (if dx > dy then (fst a, snd a, dx, dy, 1, 1, dx)
                else (snd a, fst a, dy, dx, 1, 1, dx))
             else
               (let dx = - dx
                in if dx > dy then (fst a, snd a, dx, dy, - 1, 1, dx)
                   else (snd a, fst a, dy, dx, 1, - 1, dx)));
          e = 2 * dv - du;
          dv2mdu2 = 2 * dv - 2 * du;
          dv2 = 2 * dv
      in a # bresenham_loop (nat du) e u v su sv dv2mdu2 dv2 (dx > dy))"

definition of_ipoint :: "int \<times> int \<Rightarrow> point" where
  "of_ipoint p = (num (fst p), num (snd p))"

definition bresenham :: "fbuf \<Rightarrow> point \<Rightarrow> point \<Rightarrow> color \<Rightarrow> fbuf" where
  "bresenham fb a b color = plot fb (map of_ipoint (bresenham_points a b)) color"

text \<open>
  The two overloads of \<open>line\<close>: the arguments after the first point are either a
  second point, or an angle and a length; both take an optional color.
\<close>

datatype line_args =
  TwoPoint point "color option"
| AngleLength jsnum jsnum "color option"

definition line_call :: "point \<Rightarrow> line_args \<Rightarrow> point \<times> point \<times> color" where
  "line_call pt args =
     (let a = pt;
          (b, color) =
            (case args of
               TwoPoint b color \<Rightarrow> (b, color)
             | AngleLength angle len color \<Rightarrow>
                 (let x = fst pt + jfloor (len * jcos angle);
                      y = snd pt + jfloor (len * jsin angle)
                  in ((x, y), color)));
          color = (case color of None \<Rightarrow> ColorDefault | Some c \<Rightarrow> c)
      in (a, b, color))"

definition line_points :: "point \<Rightarrow> line_args \<Rightarrow> (int \<times> int) list" where
  "line_points pt args = (case line_call pt args of (a, b, color) \<Rightarrow> bresenham_points a b)"

definition line :: "fbuf \<Rightarrow> point \<Rightarrow> line_args \<Rightarrow> fbuf" where
  "line fb pt args = (case line_call pt args of (a, b, color) \<Rightarrow> bresenham fb a b color)"

section \<open>Casting and rendering\<close>

record position =
  x :: jsnum
  y :: jsnum

text \<open>
  \<open>cast\<close> computes the trigonometry and the tile of the position, and returns
  \<^verbatim>\<open>Infinity\<close>: the traversal of the grid is left as comments in the source, and
  there is no world grid in the program.
\<close>

definition cast :: "machine \<Rightarrow> position \<Rightarrow> jsnum \<Rightarrow> jsnum" where
  "cast m pos angle =
     (let sin_a = sin_of m angle;
          cos_a = cos_of m angle;
          tan_a = (if \<not> js_eq cos_a (Fin 0) then Some (fdiv m sin_a cos_a) else None);
          cot_a = (if \<not> js_eq sin_a (Fin 0) then Some (fdiv m cos_a sin_a) else None);
          tilex = to_int32 (jfloor (fdiv m (x pos) (Fin 64)));
          tiley = to_int32 (jfloor (fdiv m (y pos) (Fin 64)))
      in PInf)"

text \<open>
  The pixel calls of \<open>render\<close>, each with the statement and the iteration that makes
  it: the call of \<open>column\<close> for a wall, or the call of \<open>line\<close> for the debug ray.
  The function that casts the rays is a parameter \<open>castf\<close>, and \<open>render\<close> itself is
  the instance at \<open>cast\<close>. With \<open>debug\<close> false the statement that draws the debug
  ray (and computes its length and color) is left out; the program is \<open>debug\<close> true.
  An exception of \<open>colorHex\<close> ends the loop.
\<close>

datatype origin = WallColumn nat | DebugRay nat

type_synonym pixel_call = "origin \<times> point \<times> color"

definition wall_column_calls ::
  "machine \<Rightarrow> nat \<Rightarrow> jsnum \<Rightarrow> jsnum \<Rightarrow> nat \<Rightarrow> jsnum \<Rightarrow> jsnum \<Rightarrow> pixel_call list" where
  "wall_column_calls m fbh dir projd col angle distance =
     (if \<not> js_eq distance PInf then
        (let corrected = fmul m distance (cos_of m (fsub m angle dir));
             hgt = fmul m (fdiv m (Fin 64) corrected) projd
         in map (\<lambda>p. (WallColumn col, p, ColorDefault))
              (column_points m fbh (num (int col)) hgt))
      else [])"

definition debug_ray_calls :: "nat \<Rightarrow> jsnum \<Rightarrow> jsnum \<Rightarrow> color \<Rightarrow> pixel_call list" where
  "debug_ray_calls col angle len c =
     map (\<lambda>p. (DebugRay col, of_ipoint p, c))
       (line_points (num 100, num 100) (AngleLength angle len (Some c)))"

definition render_iteration ::
  "machine \<Rightarrow> bool \<Rightarrow> (position \<Rightarrow> jsnum \<Rightarrow> jsnum) \<Rightarrow> nat \<Rightarrow> position \<Rightarrow> jsnum \<Rightarrow> jsnum
    \<Rightarrow> nat \<Rightarrow> jsnum \<Rightarrow> error + pixel_call list" where
  "render_iteration m debug castf fbh pos dir projd col angle =
     (let distance = castf pos angle;
          wall = wall_column_calls m fbh dir projd col angle distance
      in if debug then
           (let len = (if js_eq distance PInf then Fin 100 else fdiv m distance (Fin 10))
            in case colorHex ''#aaaaff'' None of
                 Inl e \<Rightarrow> Inl e
               | Inr c \<Rightarrow> Inr (wall @ debug_ray_calls col angle len c))
         else Inr wall)"

function render_loop ::
  "machine \<Rightarrow> bool \<Rightarrow> (position \<Rightarrow> jsnum \<Rightarrow> jsnum) \<Rightarrow> nat \<Rightarrow> nat \<Rightarrow> position \<Rightarrow> jsnum
    \<Rightarrow> jsnum \<Rightarrow> jsnum \<Rightarrow> nat \<Rightarrow> jsnum \<Rightarrow> error + pixel_call list" where
  "render_loop m debug castf fbw fbh pos dir projd delta col angle =
     (if col < fbw then
        (case render_iteration m debug castf fbh pos dir projd col angle of
           Inl e \<Rightarrow> Inl e
         | Inr ps \<Rightarrow>
             (case render_loop m debug castf fbw fbh pos dir projd delta (Suc col)
                     (fadd m angle delta) of
                Inl e \<Rightarrow> Inl e
              | Inr rest \<Rightarrow> Inr (ps @ rest)))
      else Inr [])"
  by pat_completeness auto
termination
  by (relation "measure (\<lambda>(m, debug, castf, fbw, fbh, pos, dir, projd, delta, col, angle). fbw - col)")
     auto

declare render_loop.simps [simp del]

definition render_calls ::
  "machine \<Rightarrow> bool \<Rightarrow> (position \<Rightarrow> jsnum \<Rightarrow> jsnum) \<Rightarrow> nat \<Rightarrow> nat \<Rightarrow> position \<Rightarrow> jsnum
    \<Rightarrow> error + pixel_call list" where
  "render_calls m debug castf fbw fbh pos dir =
     (let projh = Fin 200;
          projw = fdiv m (fmul m projh (Fin (real fbw))) (Fin (real fbh));
          fov = Fin 1;
          projd = fdiv m (fdiv m projw (Fin 2)) (tan_of m (fdiv m fov (Fin 2)));
          angle = fsub m dir (fdiv m fov (Fin 2));
          delta = fdiv m fov (Fin (real fbw))
      in render_loop m debug castf fbw fbh pos dir projd delta 0 angle)"

definition run_calls :: "fbuf \<Rightarrow> pixel_call list \<Rightarrow> fbuf" where
  "run_calls fb calls = foldl (\<lambda>f call. pixel f (fst (snd call)) (Some (snd (snd call)))) fb calls"

definition render_with ::
  "machine \<Rightarrow> bool \<Rightarrow> (position \<Rightarrow> jsnum \<Rightarrow> jsnum) \<Rightarrow> fbuf \<Rightarrow> position \<Rightarrow> jsnum
    \<Rightarrow> error + fbuf" where
  "render_with m debug castf fb pos dir =
     (case render_calls m debug castf (width fb) (height fb) pos dir of
        Inl e \<Rightarrow> Inl e
      | Inr calls \<Rightarrow> Inr (run_calls fb calls))"

definition render :: "machine \<Rightarrow> fbuf \<Rightarrow> position \<Rightarrow> jsnum \<Rightarrow> error + fbuf" where
  "render m fb pos dir = render_with m True (cast m) fb pos dir"




definition is_wall :: "pixel_call \<Rightarrow> bool" where
  "is_wall call = (case fst call of WallColumn col \<Rightarrow> True | DebugRay col \<Rightarrow> False)"

text \<open>
  The values that \<open>render\<close> holds in the iteration of column \<open>c\<close>. The angle of the
  ray is the first angle \<^verbatim>\<open>dir - fov / 2\<close> after \<open>c\<close> additions
  \<^verbatim>\<open>angle += delta\<close>, with \<^verbatim>\<open>fov = 1\<close> and \<^verbatim>\<open>delta = fov / fbuf.width\<close>. The
  distance of the projection plane is \<^verbatim>\<open>(projw / 2) / Math.tan(fov / 2)\<close> with
  \<^verbatim>\<open>projw = 200 * fbuf.width / fbuf.height\<close>. For a ray cast to the distance \<open>d\<close>,
  the corrected distance is \<^verbatim>\<open>d * Math.cos(angle - dir)\<close>, the height given to
  \<open>column\<close> is \<^verbatim>\<open>64 / corrected * projd\<close>, and the length of the debug ray is 100
  when \<open>d\<close> is \<^verbatim>\<open>Infinity\<close> and \<^verbatim>\<open>d / 10\<close> otherwise.
\<close>

fun angle_at :: "machine \<Rightarrow> jsnum \<Rightarrow> nat \<Rightarrow> nat \<Rightarrow> jsnum" where
  "angle_at m dir fbw 0 = fsub m dir (fdiv m (Fin 1) (Fin 2))"
| "angle_at m dir fbw (Suc c) = fadd m (angle_at m dir fbw c) (fdiv m (Fin 1) (Fin (real fbw)))"

definition plane_distance :: "machine \<Rightarrow> nat \<Rightarrow> nat \<Rightarrow> jsnum" where
  "plane_distance m fbw fbh =
     fdiv m (fdiv m (fdiv m (fmul m (Fin 200) (Fin (real fbw))) (Fin (real fbh))) (Fin 2))
       (tan_of m (fdiv m (Fin 1) (Fin 2)))"



definition ray_length :: "machine \<Rightarrow> jsnum \<Rightarrow> jsnum" where
  "ray_length m d = (if js_eq d PInf then Fin 100 else fdiv m d (Fin 10))"




text \<open>The format \<^verbatim>\<open>#rrggbb\<close>, in either case, as the specification words it.\<close>

definition hex_char :: "char \<Rightarrow> bool" where
  "hex_char c = (c \<in> set ''0123456789abcdefABCDEF'')"

definition is_rrggbb :: "string \<Rightarrow> bool" where
  "is_rrggbb s = (length s = 7 \<and> hd s = CHR ''#'' \<and> list_all hex_char (tl s))"

definition valid_color :: "color \<Rightarrow> bool" where
  "valid_color c =
     (case c of (r, g, b, a) \<Rightarrow>
        0 \<le> r \<and> r \<le> 255 \<and> 0 \<le> g \<and> g \<le> 255 \<and> 0 \<le> b \<and> b \<le> 255 \<and> 0 \<le> a \<and> a \<le> 255)"

section \<open>Colors: properties\<close>

lemma and_255_mod: "(k::int) AND 255 = k mod 256"
proof -
  have "k AND mask 8 = k mod 2 ^ 8"
    by (simp only: take_bit_eq_mod flip: take_bit_eq_mask)
  then show ?thesis by (simp add: mask_eq_exp_minus_1)
qed

lemma bitand_ff: "bitand a (num 0xff) = to_int32 a mod 256"
  by (simp add: bitand_def num_def trunc_def and_255_mod)

lemma to_int32_num_mod: "to_int32 (num k) mod 256 = k mod 256"
proof -
  have "take_bit 8 (signed_take_bit 31 k) = take_bit 8 k"
    by (rule take_bit_signed_take_bit) simp
  then show ?thesis
    by (simp add: num_def trunc_def sint_sbintrunc' take_bit_eq_mod)
qed

lemma mod_256_range: "0 \<le> (k::int) mod 256 \<and> k mod 256 \<le> 255"
  using pos_mod_bound [of 256 k] pos_mod_sign [of 256 k] by simp

lemma colorRGBA_channels:
  "colorRGBA r g b a =
     (to_int32 r mod 256, to_int32 g mod 256, to_int32 b mod 256,
      to_int32 (case a of None \<Rightarrow> num 255 | Some a' \<Rightarrow> a') mod 256)"
  by (simp add: colorRGBA_def bitand_ff)

lemma valid_colorRGBA: "valid_color (colorRGBA r g b a)"
  by (simp add: colorRGBA_channels valid_color_def mod_256_range)



lemma hex_digit_iff: "hex_digit c \<noteq> None \<longleftrightarrow> hex_char c"
proof -
  have "hex_char c \<longleftrightarrow> (of_char c :: nat) \<in> of_char ` set ''0123456789abcdefABCDEF''"
    unfolding hex_char_def by (rule inj_image_mem_iff [symmetric]) (simp add: inj_on_def)
  also have "\<dots> \<longleftrightarrow> hex_digit c \<noteq> None"
    by (simp add: hex_digit_def Let_def) arith
  finally show ?thesis by simp
qed

lemma match_class_eq:
  "match_class n s =
     (if n \<le> length s \<and> list_all hex_char (take n s) then Some (take n s, drop n s)
      else None)"
  by (induction n s rule: match_class.induct) (auto simp: hex_digit_iff [symmetric])

lemma match_hex_eq: "match_hex s = (if is_rrggbb s then Some (tl s) else None)"
  by (cases s) (auto simp: match_hex_def match_class_eq is_rrggbb_def)

lemma colorHex_example:
  "colorHex ''#aabbcc'' None = Inr (colorRGBA (num 0xaa) (num 0xbb) (num 0xcc) (Some (num 255)))"
  by code_simp

lemma colorHex_bad_example: "colorHex ''not-a-color'' None = Inl InvalidHexValue"
  by code_simp

lemma colorHex_debug: "colorHex ''#aaaaff'' None = Inr (170, 170, 255, 255)"
  by code_simp

text \<open>
  C2, as stated: the channels of \<open>colorRGBA\<close> are clamped, so that an input above 255
  gives 255 and an input below 0 gives 0. The mask \<^verbatim>\<open>& 0xff\<close> wraps instead: 256
  gives 0 and -1 gives 255.
\<close>

theorem colorRGBA_clamp_counterexample:
  "colorRGBA (num 256) (num (- 1)) (num 0) None = (0, 255, 0, 255) \<and>
   colorRGBA (num 256) (num (- 1)) (num 0) None \<noteq> (255, 0, 0, 255)"
  by code_simp

text \<open>
  C2, amended: each channel of \<open>colorRGBA\<close> is the low eight bits of its input
  converted to a 32-bit integer, on its own; for an integer input that is the input
  modulo 256.
\<close>

theorem colorRGBA_low_eight_bits:
  "colorRGBA (num r) (num g) (num b) (Some (num a)) =
     (r mod 256, g mod 256, b mod 256, a mod 256) \<and>
   colorRGBA r' g' b' (Some a') =
     (to_int32 r' mod 256, to_int32 g' mod 256, to_int32 b' mod 256, to_int32 a' mod 256)"
  by (simp add: colorRGBA_channels to_int32_num_mod)

text \<open>
  C6: \<open>colorHex\<close> fails with the invalid-format error on every string that is not of
  the form \<^verbatim>\<open>#rrggbb\<close> (in either case) and succeeds on every string that is;
  \<^verbatim>\<open>colorHex("#aabbcc")\<close> is \<^verbatim>\<open>colorRGBA(0xaa, 0xbb, 0xcc, 255)\<close> and
  \<^verbatim>\<open>colorHex("not-a-color")\<close> fails.
\<close>

theorem colorHex_accepts_rrggbb:
  "(is_rrggbb s \<longrightarrow> (\<exists>c. colorHex s a = Inr c)) \<and>
   (\<not> is_rrggbb s \<longrightarrow> colorHex s a = Inl InvalidHexValue) \<and>
   colorHex ''#aabbcc'' None =
     Inr (colorRGBA (num 0xaa) (num 0xbb) (num 0xcc) (Some (num 255))) \<and>
   colorHex ''not-a-color'' None = Inl InvalidHexValue"
proof -
  have ok: "\<exists>c. colorHex s a = Inr c" if "is_rrggbb s"
    using that by (simp add: colorHex_def match_hex_eq Let_def del: split_paired_Ex)
  have bad: "colorHex s a = Inl InvalidHexValue" if "\<not> is_rrggbb s"
    using that by (simp add: colorHex_def match_hex_eq)
  show ?thesis
    using ok bad colorHex_example colorHex_bad_example by blast
qed

theorem colorHex_accepts_rrggbb_witness:
  "is_rrggbb ''#AaBb09'' \<and> (\<exists>c. colorHex ''#AaBb09'' (Some (num 7)) = Inr c) \<and>
   \<not> is_rrggbb ''#aabbc'' \<and> colorHex ''#aabbc'' None = Inl InvalidHexValue"
  using colorHex_accepts_rrggbb [of "''#AaBb09''" "Some (num 7)"]
    colorHex_accepts_rrggbb [of "''#aabbc''" None]
  by (simp add: is_rrggbb_def hex_char_def)

text \<open>
  C10: every color that \<open>colorRGBA\<close> or \<open>colorHex\<close> returns, whatever the numbers
  given (fractional, out of range, infinite or NaN), has its four channels in
  \<open>[0,255]\<close>; they are integers by the type of a channel.
\<close>

theorem color_channels_in_range:
  "valid_color (colorRGBA r g b a) \<and> (\<forall>c. colorHex s a' = Inr c \<longrightarrow> valid_color c)"
proof -
  have "valid_color c" if "colorHex s a' = Inr c" for c
    using that
    by (cases "match_hex s")
       (auto simp: colorHex_def Let_def valid_colorRGBA simp del: split_paired_All)
  then show ?thesis by (simp add: valid_colorRGBA del: split_paired_All)
qed

theorem color_channels_in_range_witness:
  "colorHex ''#ff00Fe'' (Some (Fin (- 3.5))) = Inr (255, 0, 254, 253) \<and>
   valid_color (255, 0, 254, 253)"
  using color_channels_in_range [of "Fin 300" "Fin 0.5" NaN None "''#ff00Fe''" "Some (Fin (- 3.5))"]
  by (simp add: colorHex_def match_hex_eq is_rrggbb_def hex_char_def hex_digit_def
      colorRGBA_def bitand_def shr_def num_def trunc_def)

section \<open>Lines: properties\<close>

lemma trunc_of_int: "trunc (of_int k) = k"
  by (simp add: trunc_def)

lemma to_int32_of_num: "to_int32 (num k) = sint (word_of_int k :: 32 word)"
  by (simp only: num_def to_int32.simps trunc_of_int)

lemma to_int32_num: "to_int32 (num (to_int32 a)) = to_int32 a"
  by (cases a) (simp_all add: to_int32_of_num)

lemma pixel_to_int32: "pixel fb (num (to_int32 (fst p)), num (to_int32 (snd p))) c = pixel fb p c"
  by (simp add: pixel_def to_int32_num)


lemma upt_one_Suc: "1 # map Suc [1..<Suc n] = [1..<Suc (Suc n)]"
proof -
  have "[1..<Suc (Suc n)] = 1 # [Suc 1..<Suc (Suc n)]"
    by (rule upt_conv_Cons) simp
  then show ?thesis by (simp only: map_Suc_upt)
qed

text \<open>With no minor step to take (\<open>dv = 0\<close>) the error stays negative and the loop runs
  along the major axis.\<close>

lemma bresenham_loop_flat:
  "e < 0 \<Longrightarrow>
   bresenham_loop n e u v su sv m 0 True = map (\<lambda>k. (u + su * int k, v)) [1..<Suc n]"
proof (induction n arbitrary: u)
  case 0
  then show ?case by simp
next
  case (Suc n)
  have "bresenham_loop (Suc n) e u v su sv m 0 True =
        (u + su, v) # bresenham_loop n e (u + su) v su sv m 0 True"
    using Suc.prems by (simp add: Let_def)
  also have "\<dots> = (u + su, v) # map (\<lambda>k. (u + su + su * int k, v)) [1..<Suc n]"
    using Suc.IH [OF Suc.prems] by simp
  also have "\<dots> = map (\<lambda>k. (u + su * int k, v)) (1 # map Suc [1..<Suc n])"
    by (simp add: algebra_simps)
  finally show ?case by (simp only: upt_one_Suc)
qed

lemma flat_set:
  assumes "e < 0"
  shows "set ((u, v) # bresenham_loop n e u v su sv m 0 True) =
         (\<lambda>k. (u + su * int k, v)) ` {0..n}"
proof -
  have "{0..n} = insert 0 {1..n}" by auto
  moreover have "set [1..<Suc n] = {1..n}" by auto
  ultimately show ?thesis
    by (simp only: bresenham_loop_flat [OF assms] list.set set_map image_insert) simp
qed

lemma run_up: "(\<lambda>k. (u + 1 * int k, v)) ` {0..n} = (\<lambda>x. (x, v)) ` {u..u + int n}"
proof -
  have "(\<lambda>k. u + int k) ` {0..n} = {u..u + int n}"
  proof (rule set_eqI)
    fix x
    show "x \<in> (\<lambda>k. u + int k) ` {0..n} \<longleftrightarrow> x \<in> {u..u + int n}"
    proof
      assume "x \<in> (\<lambda>k. u + int k) ` {0..n}"
      then show "x \<in> {u..u + int n}" by auto
    next
      assume "x \<in> {u..u + int n}"
      then have "x = u + int (nat (x - u))" "nat (x - u) \<in> {0..n}" by auto
      then show "x \<in> (\<lambda>k. u + int k) ` {0..n}" by (rule image_eqI)
    qed
  qed
  then have "(\<lambda>x. (x, v)) ` ((\<lambda>k. u + int k) ` {0..n}) = (\<lambda>x. (x, v)) ` {u..u + int n}"
    by simp
  then show ?thesis by (simp add: image_image)
qed

lemma run_down: "(\<lambda>k. (u + - 1 * int k, v)) ` {0..n} = (\<lambda>x. (x, v)) ` {u - int n..u}"
proof -
  have "(\<lambda>k. u - int k) ` {0..n} = {u - int n..u}"
  proof (rule set_eqI)
    fix x
    show "x \<in> (\<lambda>k. u - int k) ` {0..n} \<longleftrightarrow> x \<in> {u - int n..u}"
    proof
      assume "x \<in> (\<lambda>k. u - int k) ` {0..n}"
      then show "x \<in> {u - int n..u}" by auto
    next
      assume "x \<in> {u - int n..u}"
      then have "x = u - int (nat (u - x))" "nat (u - x) \<in> {0..n}" by auto
      then show "x \<in> (\<lambda>k. u - int k) ` {0..n}" by (rule image_eqI)
    qed
  qed
  then have "(\<lambda>x. (x, v)) ` ((\<lambda>k. u - int k) ` {0..n}) = (\<lambda>x. (x, v)) ` {u - int n..u}"
    by simp
  then show ?thesis by (simp add: image_image)
qed

text \<open>A line between two points of one row is the run of pixels between them.\<close>

lemma bresenham_points_level:
  assumes "to_int32 (snd a) = to_int32 (snd b)"
  shows "set (bresenham_points a b) =
         (\<lambda>x. (x, to_int32 (snd a))) `
           {min (to_int32 (fst a)) (to_int32 (fst b)) .. max (to_int32 (fst a)) (to_int32 (fst b))}"
proof -
  let ?ax = "to_int32 (fst a)" and ?bx = "to_int32 (fst b)" and ?y = "to_int32 (snd a)"
  consider "?ax < ?bx" | "?ax = ?bx" | "?bx < ?ax" by linarith
  then show ?thesis
  proof cases
    case 1
    then have "bresenham_points a b =
        (?ax, ?y) # bresenham_loop (nat (?bx - ?ax)) (- (?bx - ?ax)) ?ax ?y 1 1
                      (- 2 * (?bx - ?ax)) 0 True"
      using assms by (simp add: bresenham_points_def Let_def)
    then show ?thesis
      using 1 by (simp only: flat_set run_up) (simp add: min_def max_def)
  next
    case 2
    then show ?thesis
      using assms by (simp add: bresenham_points_def Let_def)
  next
    case 3
    then have "bresenham_points a b =
        (?ax, ?y) # bresenham_loop (nat (?ax - ?bx)) (- (?ax - ?bx)) ?ax ?y (- 1) 1
                      (- 2 * (?ax - ?bx)) 0 True"
      using assms by (simp add: bresenham_points_def Let_def)
    then show ?thesis
      using 3 by (simp only: flat_set run_down) (simp add: min_def max_def)
  qed
qed

text \<open>Two points of different rows are put in the same order, whichever comes first.\<close>

lemma bresenham_points_swap:
  assumes "to_int32 (snd a) \<noteq> to_int32 (snd b)"
  shows "bresenham_points a b = bresenham_points b a"
  using assms by (simp add: bresenham_points_def Let_def)

lemma bresenham_points_same: "bresenham_points a a = [(to_int32 (fst a), to_int32 (snd a))]"
  by (simp add: bresenham_points_def Let_def)

text \<open>
  C3: the set of pixels plotted by the line from \<open>a\<close> to \<open>b\<close> is the set plotted by
  the line from \<open>b\<close> to \<open>a\<close>, for all points (integer points among them) and whatever
  the colors.
\<close>

theorem line_pixels_symmetric:
  "set (line_points a (TwoPoint b c)) = set (line_points b (TwoPoint a c'))"
proof (cases "to_int32 (snd a) = to_int32 (snd b)")
  case True
  then show ?thesis
    by (simp add: line_points_def line_call_def bresenham_points_level min.commute max.commute)
next
  case False
  then show ?thesis
    by (simp add: line_points_def line_call_def bresenham_points_swap)
qed


text \<open>
  C9: a line from a point to itself plots one pixel, the one of that point: there is one
  pixel call, and the framebuffer is the one \<open>pixel\<close> gives at that point.
\<close>

theorem line_zero_length_one_pixel:
  "line_points a (TwoPoint a c) = [(to_int32 (fst a), to_int32 (snd a))] \<and>
   line fb a (TwoPoint a c) = pixel fb a c"
proof -
  have "line fb a (TwoPoint a c) = pixel fb (num (to_int32 (fst a)), num (to_int32 (snd a))) c"
    by (cases c)
       (simp_all add: line_def line_call_def bresenham_def bresenham_points_same plot_def
          of_ipoint_def pixel_def)
  then show ?thesis
    by (simp add: pixel_to_int32 line_points_def line_call_def bresenham_points_same)
qed

section \<open>Columns and rendering: properties\<close>














text \<open>The pixel calls of \<open>render\<close>, column by column.\<close>

lemma render_iteration_eq:
  "render_iteration m debug castf h pos dir projd col angle =
     Inr (wall_column_calls m h dir projd col angle (castf pos angle) @
          (if debug then
             debug_ray_calls col angle (ray_length m (castf pos angle)) (170, 170, 255, 255)
           else []))"
  by (simp add: render_iteration_def Let_def colorHex_debug ray_length_def)

lemma render_loop_eq:
  "render_loop m debug castf w h pos dir projd (fdiv m (Fin 1) (Fin (real w))) col
     (angle_at m dir w col) =
     Inr (concat (map (\<lambda>c. wall_column_calls m h dir projd c (angle_at m dir w c)
                               (castf pos (angle_at m dir w c)) @
                             (if debug then
                                debug_ray_calls c (angle_at m dir w c)
                                  (ray_length m (castf pos (angle_at m dir w c)))
                                  (170, 170, 255, 255)
                              else []))
                    [col..<w]))"
proof (induction "w - col" arbitrary: col)
  case 0
  then show ?case by (subst render_loop.simps) simp
next
  case (Suc n)
  then have lt: "col < w" and n: "n = w - Suc col" by simp_all
  have up: "[col..<w] = col # [Suc col..<w]" using lt by (rule upt_conv_Cons)
  show ?case
    by (subst render_loop.simps)
       (simp only: lt if_True render_iteration_eq sum.case angle_at.simps(2) [symmetric]
          Suc.hyps(1) [OF n] up list.map concat.simps append_assoc)
qed

lemma render_calls_eq:
  "render_calls m debug castf w h pos dir =
     Inr (concat (map (\<lambda>c. wall_column_calls m h dir (plane_distance m w h) c (angle_at m dir w c)
                               (castf pos (angle_at m dir w c)) @
                             (if debug then
                                debug_ray_calls c (angle_at m dir w c)
                                  (ray_length m (castf pos (angle_at m dir w c)))
                                  (170, 170, 255, 255)
                              else []))
                    [0..<w]))"
proof -
  have "render_calls m debug castf w h pos dir =
        render_loop m debug castf w h pos dir (plane_distance m w h) (fdiv m (Fin 1) (Fin (real w)))
          0 (angle_at m dir w 0)"
    unfolding render_calls_def Let_def plane_distance_def angle_at.simps ..
  then show ?thesis
    by (simp only: render_loop_eq)
qed





lemma is_wall_wall:
  "filter is_wall (wall_column_calls m h dir projd k angle dst) =
     wall_column_calls m h dir projd k angle dst"
  by (simp add: wall_column_calls_def Let_def filter_map o_def is_wall_def)

lemma is_wall_debug: "filter is_wall (debug_ray_calls k angle len col) = []"
  by (simp add: debug_ray_calls_def filter_map o_def is_wall_def)











text \<open>With \<open>cast\<close> as it is, \<open>render\<close> makes no pixel call for a wall.\<close>

lemma cast_no_hit: "cast m pos angle = PInf"
  by (simp add: cast_def Let_def)

lemma render_no_walls:
  "\<exists>calls. render_calls m True (cast m) w h pos dir = Inr calls \<and> filter is_wall calls = []"
  by (simp add: render_calls_eq filter_concat o_def is_wall_wall is_wall_debug cast_no_hit
      wall_column_calls_def)






















lemma height_pixel: "height (pixel fb p c) = height fb"
  by (simp add: pixel_def Let_def)
























end
